theory Spec2Isabelle
  imports Complex_Main
begin

section \<open>The superheroes API server (backend/src/server.ts)\<close>

text \<open>
  The server answers four GET routes from a catalog that it reads afresh from
  \<^verbatim>\<open>data/superheroes.json\<close> on every request. The development embeds the four
  handlers and the JavaScript built-ins they rely on (\<^verbatim>\<open>Number\<close>, \<^verbatim>\<open>isNaN\<close>,
  \<^verbatim>\<open>String\<close>, \<^verbatim>\<open>===\<close>, \<^verbatim>\<open>>\<close>, \<^verbatim>\<open>Array.prototype.find\<close>). The handlers
  are anonymous arrow functions in the source; here they bear the names of the
  operations they serve: \<open>listAll\<close>, \<open>compare\<close>, \<open>getEntity\<close>, \<open>getStatline\<close>.

  Modelling boundary.
  \<^item> The catalog file is not part of the sources; its records are typed as the catalog
    format declares them: a numeric integer \<^verbatim>\<open>id\<close>, strings \<^verbatim>\<open>name\<close> and \<^verbatim>\<open>image\<close>, and
    a \<^verbatim>\<open>powerstats\<close> object whose values are integers. The object itself stays open: it
    is a list of key/value pairs, so a key may be absent and others may be present.
  \<^item> Integers of the catalog are \<open>int\<close>, which agrees with JavaScript numbers on every
    safe integer (magnitude below \<open>2 ^ 53\<close>).
  \<^item> A value produced by \<^verbatim>\<open>Number\<close> is \<open>NaN\<close>, an infinity, or a rational: the
    value of the numeric literal rounded to binary64, as a correctly rounding
    implementation (the one of Node.js) does for a literal of any length.
  \<^item> A \<open>char\<close> stands for a UTF-16 code unit below 256.
\<close>

subsection \<open>Catalog records\<close>

record hero =
  hero_id :: int
  hero_name :: string
  image :: string
  powerstats :: "(string \<times> int) list"

text \<open>
  The three ways \<^verbatim>\<open>loadSuperheroes\<close> can end: \<^verbatim>\<open>fs.readFile\<close> reports an
  error, \<^verbatim>\<open>JSON.parse\<close> throws, or the parsed catalog is resolved.
\<close>

datatype data_file = Unreadable | Unparsable | Parsed "hero list"

datatype load_error = ReadError | ParseError

definition loadSuperheroes :: "data_file \<Rightarrow> load_error + hero list" where
  "loadSuperheroes file =
     (case file of
        Unreadable \<Rightarrow> Inl ReadError
      | Unparsable \<Rightarrow> Inl ParseError
      | Parsed superheroes \<Rightarrow> Inr superheroes)"

subsection \<open>JavaScript numbers and the coercion \<^verbatim>\<open>Number\<close>\<close>

datatype number = NaN | Finite rat | PosInfinity | NegInfinity

definition isNaN :: "number \<Rightarrow> bool" where
  "isNaN x = (case x of NaN \<Rightarrow> True | _ \<Rightarrow> False)"

text \<open>White space and line terminators that \<^verbatim>\<open>StringToNumber\<close> strips.\<close>

definition is_white_space :: "char \<Rightarrow> bool" where
  "is_white_space c = (of_char c \<in> {9, 10, 11, 12, 13, 32, 160 :: nat})"

definition trim :: "string \<Rightarrow> string" where
  "trim s = rev (dropWhile is_white_space (rev (dropWhile is_white_space s)))"

definition digit_value :: "char \<Rightarrow> nat option" where
  "digit_value c =
     (let n = (of_char c :: nat) in
      if 48 \<le> n \<and> n \<le> 57 then Some (n - 48)
      else if 97 \<le> n \<and> n \<le> 102 then Some (n - 87)
      else if 65 \<le> n \<and> n \<le> 70 then Some (n - 55)
      else None)"

definition is_digit :: "nat \<Rightarrow> char \<Rightarrow> bool" where
  "is_digit base c = (case digit_value c of None \<Rightarrow> False | Some d \<Rightarrow> d < base)"

definition digits_value :: "nat \<Rightarrow> string \<Rightarrow> int" where
  "digits_value base s =
     foldl (\<lambda>acc c. acc * int base + (case digit_value c of None \<Rightarrow> 0 | Some d \<Rightarrow> int d))
       0 s"

text \<open>A non-empty run of digits of the given base.\<close>

definition all_digits :: "nat \<Rightarrow> string \<Rightarrow> bool" where
  "all_digits base s = (s \<noteq> [] \<and> list_all (is_digit base) s)"

text \<open>\<^verbatim>\<open>ExponentPart\<close>: an optional sign and at least one decimal digit.\<close>

definition exponent_value :: "string \<Rightarrow> int option" where
  "exponent_value s =
     (case s of
        [] \<Rightarrow> None
      | c # rest \<Rightarrow>
          if c = CHR ''-'' then
            (if all_digits 10 rest then Some (- digits_value 10 rest) else None)
          else if c = CHR ''+'' then
            (if all_digits 10 rest then Some (digits_value 10 rest) else None)
          else if all_digits 10 s then Some (digits_value 10 s) else None)"

text \<open>
  The digits before the exponent: \<^verbatim>\<open>DecimalDigits . DecimalDigits?\<close>,
  \<^verbatim>\<open>. DecimalDigits\<close> or \<^verbatim>\<open>DecimalDigits\<close>.
\<close>

definition mantissa_value :: "string \<Rightarrow> rat option" where
  "mantissa_value s =
     (let whole = takeWhile (\<lambda>c. c \<noteq> CHR ''.'') s;
          rest = dropWhile (\<lambda>c. c \<noteq> CHR ''.'') s;
          fraction = (case rest of [] \<Rightarrow> [] | _ # f \<Rightarrow> f)
      in if whole = [] \<and> fraction = [] then None
         else if list_all (is_digit 10) whole \<and> list_all (is_digit 10) fraction then
           Some (of_int (digits_value 10 whole)
                 + of_int (digits_value 10 fraction) / 10 ^ length fraction)
         else None)"

definition is_exponent_indicator :: "char \<Rightarrow> bool" where
  "is_exponent_indicator c = (c = CHR ''e'' \<or> c = CHR ''E'')"

definition scale :: "rat \<Rightarrow> int \<Rightarrow> rat" where
  "scale m e = (if 0 \<le> e then m * 10 ^ nat e else m / 10 ^ nat (- e))"

text \<open>
  Rounding to binary64, as \<^verbatim>\<open>StringToNumber\<close> rounds the mathematical
  value of a literal: to the nearest representable value, a tie going to the
  even significand; magnitudes from \<open>2 ^ 1024\<close> on become an infinity, and
  below \<open>2 ^ -1022\<close> the spacing stays \<open>2 ^ -1074\<close> (subnormal numbers, and
  zero).
\<close>

fun bit_length :: "int \<Rightarrow> nat" where
  "bit_length n = (if n \<le> 0 then 0 else Suc (bit_length (n div 2)))"

text \<open>
  The exponent \<open>e\<close> with \<open>2 ^ e \<le> p / q < 2 ^ (e + 1)\<close>, for positive \<open>p\<close>
  and \<open>q\<close>.
\<close>

definition floor_log2 :: "int \<Rightarrow> int \<Rightarrow> int" where
  "floor_log2 p q =
     (if q \<le> p then int (bit_length (p div q)) - 1
      else - int (bit_length ((q + p - 1) div p - 1)))"

definition pow2 :: "int \<Rightarrow> rat" where
  "pow2 k = (if 0 \<le> k then 2 ^ nat k else 1 / 2 ^ nat (- k))"

text \<open>The integer nearest to \<open>num / den\<close>, the even one of two equally near.\<close>

definition round_half_even :: "int \<Rightarrow> int \<Rightarrow> int" where
  "round_half_even num den =
     (let f = num div den;
          rem = num mod den
      in if 2 * rem < den then f
         else if den < 2 * rem then f + 1
         else if even f then f
         else f + 1)"

text \<open>
  The magnitude \<open>p / q\<close> is rounded to a multiple \<open>n\<close> of \<open>2 ^ k\<close>, the
  spacing of binary64 at its exponent \<open>e\<close>.
\<close>

definition binary64 :: "rat \<Rightarrow> number" where
  "binary64 r =
     (if r = 0 then Finite 0
      else
        let p = \<bar>fst (quotient_of r)\<bar>;
            q = snd (quotient_of r);
            e = max (floor_log2 p q) (- 1022);
            k = e - 52;
            n = (if 0 \<le> k then round_half_even p (q * 2 ^ nat k)
                 else round_half_even (p * 2 ^ nat (- k)) q);
            v = of_int n * pow2 k
        in if 1024 \<le> e \<or> (e = 1023 \<and> n = 2 ^ 53) then
             (if r < 0 then NegInfinity else PosInfinity)
           else Finite (if r < 0 then - v else v))"

text \<open>\<^verbatim>\<open>StrUnsignedDecimalLiteral\<close>.\<close>

definition unsigned_decimal :: "string \<Rightarrow> number" where
  "unsigned_decimal s =
     (if s = ''Infinity'' then PosInfinity
      else
        let m = takeWhile (\<lambda>c. \<not> is_exponent_indicator c) s;
            rest = dropWhile (\<lambda>c. \<not> is_exponent_indicator c) s
        in case mantissa_value m of
             None \<Rightarrow> NaN
           | Some v \<Rightarrow>
               (case rest of
                  [] \<Rightarrow> binary64 v
                | _ # e \<Rightarrow>
                    (case exponent_value e of
                       None \<Rightarrow> NaN
                     | Some n \<Rightarrow> binary64 (scale v n))))"

definition negate :: "number \<Rightarrow> number" where
  "negate x =
     (case x of
        NaN \<Rightarrow> NaN
      | Finite v \<Rightarrow> Finite (- v)
      | PosInfinity \<Rightarrow> NegInfinity
      | NegInfinity \<Rightarrow> PosInfinity)"

text \<open>\<^verbatim>\<open>NonDecimalIntegerLiteral\<close>: the digits after \<^verbatim>\<open>0x\<close>, \<^verbatim>\<open>0o\<close> or \<^verbatim>\<open>0b\<close>.\<close>

definition non_decimal :: "nat \<Rightarrow> string \<Rightarrow> number" where
  "non_decimal base s =
     (if all_digits base s then binary64 (of_int (digits_value base s)) else NaN)"

text \<open>
  \<^verbatim>\<open>StringToNumber\<close>: the trimmed text is empty (the value is 0), a
  non-decimal integer literal, or an optionally signed decimal literal;
  anything else is \<open>NaN\<close>.
\<close>

definition StringToNumber :: "string \<Rightarrow> number" where
  "StringToNumber str =
     (case trim str of
        [] \<Rightarrow> Finite 0
      | [c] \<Rightarrow> unsigned_decimal [c]
      | c # d # rest \<Rightarrow>
          if c = CHR ''0'' \<and> (d = CHR ''x'' \<or> d = CHR ''X'') then non_decimal 16 rest
          else if c = CHR ''0'' \<and> (d = CHR ''o'' \<or> d = CHR ''O'') then non_decimal 8 rest
          else if c = CHR ''0'' \<and> (d = CHR ''b'' \<or> d = CHR ''B'') then non_decimal 2 rest
          else if c = CHR ''+'' then unsigned_decimal (d # rest)
          else if c = CHR ''-'' then negate (unsigned_decimal (d # rest))
          else unsigned_decimal (c # d # rest))"

text \<open>
  What Express hands over as \<^verbatim>\<open>req.query.id1\<close>: a string, an array (the key is
  repeated) or a nested object (bracket notation); an absent key is \<^verbatim>\<open>undefined\<close>,
  here \<open>None\<close>.
\<close>

datatype qs_value = QString string | QArray "qs_value list" | QObject "(string \<times> qs_value) list"

fun join :: "string list \<Rightarrow> string" where
  "join [] = []"
| "join [s] = s"
| "join (s # t # rest) = s @ '','' @ join (t # rest)"

text \<open>
  \<^verbatim>\<open>ToString\<close> of a query value: an array joins its elements with commas, a
  plain object is \<^verbatim>\<open>[object Object]\<close>.
\<close>

fun ToString :: "qs_value \<Rightarrow> string" where
  "ToString (QString s) = s"
| "ToString (QArray vs) = join (map ToString vs)"
| "ToString (QObject kvs) = ''[object Object]''"

text \<open>\<^verbatim>\<open>Number(value)\<close>: \<^verbatim>\<open>undefined\<close> is \<open>NaN\<close>, everything else goes through its string.\<close>

definition Number :: "qs_value option \<Rightarrow> number" where
  "Number v = (case v of None \<Rightarrow> NaN | Some x \<Rightarrow> StringToNumber (ToString x))"

text \<open>\<^verbatim>\<open>h.id === id1\<close>, for the integer \<^verbatim>\<open>h.id\<close> of a catalog record.\<close>

definition strict_equals :: "int \<Rightarrow> number \<Rightarrow> bool" where
  "strict_equals i x = (case x of Finite v \<Rightarrow> v = of_int i | _ \<Rightarrow> False)"

subsection \<open>\<^verbatim>\<open>String\<close> of an integer\<close>

fun decimal :: "nat \<Rightarrow> string" where
  "decimal n =
     (if n < 10 then [char_of (48 + n)]
      else decimal (n div 10) @ [char_of (48 + n mod 10)])"

text \<open>
  \<^verbatim>\<open>String(hero.id)\<close>: the decimal digits, with a minus sign below zero. JavaScript
  switches to exponent notation from \<open>10 ^ 21\<close> on, beyond every safe integer.
\<close>

definition String_of_id :: "int \<Rightarrow> string" where
  "String_of_id i = (if i < 0 then CHR ''-'' # decimal (nat (- i)) else decimal (nat i))"

subsection \<open>Property access and comparison\<close>

text \<open>
  \<^verbatim>\<open>hero.powerstats[cat]\<close>: the value stored under the key, or \<^verbatim>\<open>undefined\<close>
  (\<open>None\<close>) when the object has no such key.
\<close>

definition property :: "(string \<times> int) list \<Rightarrow> string \<Rightarrow> int option" where
  "property obj key = map_of obj key"

text \<open>
  \<^verbatim>\<open>a > b\<close> on numbers; \<^verbatim>\<open>undefined\<close> is converted to \<open>NaN\<close>, and every
  comparison with \<open>NaN\<close> is false.
\<close>

definition greater_than :: "int option \<Rightarrow> int option \<Rightarrow> bool" where
  "greater_than a b = (case (a, b) of (Some x, Some y) \<Rightarrow> y < x | _ \<Rightarrow> False)"

subsection \<open>Responses\<close>

text \<open>The value of a \<^verbatim>\<open>winner\<close> variable: the number 1 or 2, or a string.\<close>

datatype js_value = Num int | Str string

record category_result =
  cat_name :: string
  winner :: js_value
  id1_value :: "int option"
  id2_value :: "int option"

record comparison =
  id1 :: number
  id2 :: number
  categories :: "category_result list"
  overall_winner :: js_value

text \<open>
  What a handler sends: \<^verbatim>\<open>res.send(text)\<close>, or \<^verbatim>\<open>res.json(value)\<close> with
  the value that is serialised.
\<close>

datatype body =
    Text string
  | Json_error string
  | Json_heroes "hero list"
  | Json_hero hero
  | Json_powerstats "(string \<times> int) list"
  | Json_comparison comparison

record response =
  status :: nat
  body :: body

text \<open>
  The effects a handler has besides its response, in the order they happen: a
  read of the data file (one per call of \<^verbatim>\<open>loadSuperheroes\<close>) and a line on
  \<^verbatim>\<open>console.error\<close>.
\<close>

datatype event = ReadFile | ConsoleError string

subsection \<open>GET /api/superheroes\<close>


subsection \<open>GET /api/superheroes/compare\<close>

definition categoriesOrder :: "string list" where
  "categoriesOrder =
     [''intelligence'', ''strength'', ''speed'', ''durability'', ''power'', ''combat'']"

text \<open>
  The callback handed to \<^verbatim>\<open>categoriesOrder.map\<close>. It reads and updates the
  two counters \<^verbatim>\<open>id1Wins\<close> and \<^verbatim>\<open>id2Wins\<close> of the enclosing handler, so
  they are passed in and returned.
\<close>

definition category_callback ::
  "hero \<Rightarrow> hero \<Rightarrow> string \<Rightarrow> nat \<times> nat \<Rightarrow> category_result \<times> (nat \<times> nat)" where
  "category_callback hero1 hero2 cat wins =
     (let id1Wins = fst wins;
          id2Wins = snd wins;
          v1 = property (powerstats hero1) cat;
          v2 = property (powerstats hero2) cat
      in if greater_than v1 v2 then
           (\<lparr>cat_name = cat, winner = Num 1, id1_value = v1, id2_value = v2\<rparr>,
            (id1Wins + 1, id2Wins))
         else if greater_than v2 v1 then
           (\<lparr>cat_name = cat, winner = Num 2, id1_value = v1, id2_value = v2\<rparr>,
            (id1Wins, id2Wins + 1))
         else
           (\<lparr>cat_name = cat, winner = Str ''tie'', id1_value = v1, id2_value = v2\<rparr>,
            (id1Wins, id2Wins)))"

text \<open>\<^verbatim>\<open>Array.prototype.map\<close> with that callback, left to right.\<close>

fun map_categories ::
  "hero \<Rightarrow> hero \<Rightarrow> string list \<Rightarrow> nat \<times> nat \<Rightarrow> category_result list \<times> (nat \<times> nat)" where
  "map_categories hero1 hero2 [] wins = ([], wins)"
| "map_categories hero1 hero2 (cat # cats) wins =
     (let step = category_callback hero1 hero2 cat wins;
          rest = map_categories hero1 hero2 cats (snd step)
      in (fst step # fst rest, snd rest))"

definition compare :: "qs_value option \<Rightarrow> qs_value option \<Rightarrow> data_file \<Rightarrow> response \<times> event list" where
  "compare query_id1 query_id2 file =
     (let n1 = Number query_id1;
          n2 = Number query_id2
      in if isNaN n1 \<or> isNaN n2 then
           (\<lparr>status = 400,
             body = Json_error ''Both id1 and id2 query parameters must be valid numbers.''\<rparr>,
            [])
         else
           case loadSuperheroes file of
             Inl err \<Rightarrow>
               (\<lparr>status = 500, body = Text ''Internal Server Error''\<rparr>,
                [ReadFile, ConsoleError ''Error comparing superheroes:''])
           | Inr superheroes \<Rightarrow>
               (case find (\<lambda>h. strict_equals (hero_id h) n1) superheroes of
                  None \<Rightarrow> (\<lparr>status = 404, body = Json_error ''Superhero not found''\<rparr>, [ReadFile])
                | Some hero1 \<Rightarrow>
                    (case find (\<lambda>h. strict_equals (hero_id h) n2) superheroes of
                       None \<Rightarrow>
                         (\<lparr>status = 404, body = Json_error ''Superhero not found''\<rparr>, [ReadFile])
                     | Some hero2 \<Rightarrow>
                         (let mapped = map_categories hero1 hero2 categoriesOrder (0, 0);
                              id1Wins = fst (snd mapped);
                              id2Wins = snd (snd mapped);
                              overall =
                                (if id2Wins < id1Wins then Num 1
                                 else if id1Wins < id2Wins then Num 2
                                 else Str ''tie'')
                          in (\<lparr>status = 200,
                                body = Json_comparison
                                  \<lparr>id1 = n1, id2 = n2, categories = fst mapped,
                                    overall_winner = overall\<rparr>\<rparr>,
                              [ReadFile])))))"

subsection \<open>GET /api/superheroes/:id and GET /api/superheroes/:id/powerstats\<close>

text \<open>
  The route parameter is always a string, so \<^verbatim>\<open>String(id)\<close> is the parameter
  itself.
\<close>

definition getEntity :: "string \<Rightarrow> data_file \<Rightarrow> response \<times> event list" where
  "getEntity ident file =
     (case loadSuperheroes file of
        Inl err \<Rightarrow>
          (\<lparr>status = 500, body = Text ''Internal Server Error''\<rparr>,
           [ReadFile, ConsoleError ''Error loading superheroes data:''])
      | Inr superheroes \<Rightarrow>
          (case find (\<lambda>hero. String_of_id (hero_id hero) = ident) superheroes of
             Some superhero \<Rightarrow> (\<lparr>status = 200, body = Json_hero superhero\<rparr>, [ReadFile])
           | None \<Rightarrow> (\<lparr>status = 404, body = Text ''Superhero not found''\<rparr>, [ReadFile])))"

definition getStatline :: "string \<Rightarrow> data_file \<Rightarrow> response \<times> event list" where
  "getStatline ident file =
     (case loadSuperheroes file of
        Inl err \<Rightarrow>
          (\<lparr>status = 500, body = Text ''Internal Server Error''\<rparr>,
           [ReadFile, ConsoleError ''Error loading superheroes data:''])
      | Inr superheroes \<Rightarrow>
          (case find (\<lambda>hero. String_of_id (hero_id hero) = ident) superheroes of
             Some superhero \<Rightarrow>
               (\<lparr>status = 200, body = Json_powerstats (powerstats superhero)\<rparr>, [ReadFile])
           | None \<Rightarrow> (\<lparr>status = 404, body = Text ''Superhero not found''\<rparr>, [ReadFile])))"

section \<open>Notions used in the statements\<close>

text \<open>
  A small catalog for the concrete instances. Record 1 is named as the backend
  test names it, record 2 has the statline that test expects; the rest is made up.
\<close>

definition hero_1 :: hero where
  "hero_1 =
     \<lparr>hero_id = 1, hero_name = ''A-Bomb'', image = ''1.jpg'',
      powerstats = [(''intelligence'', 38), (''strength'', 100), (''speed'', 17),
                    (''durability'', 80), (''power'', 24), (''combat'', 64)]\<rparr>"

definition hero_2 :: hero where
  "hero_2 =
     \<lparr>hero_id = 2, hero_name = ''Second'', image = ''2.jpg'',
      powerstats = [(''intelligence'', 100), (''strength'', 18), (''speed'', 23),
                    (''durability'', 28), (''power'', 32), (''combat'', 32)]\<rparr>"

definition hero_10 :: hero where
  "hero_10 =
     \<lparr>hero_id = 10, hero_name = ''Tenth'', image = ''10.jpg'',
      powerstats = [(''intelligence'', 10), (''strength'', 8), (''speed'', 13),
                    (''durability'', 5), (''power'', 5), (''combat'', 20)]\<rparr>"

definition sample_catalog :: "hero list" where
  "sample_catalog = [hero_1, hero_2, hero_10]"

text \<open>
  The mirror image of a comparison: 1 and 2 change places, \<^verbatim>\<open>tie\<close> stays, and
  the two values of a category change places.
\<close>

definition mirror_winner :: "js_value \<Rightarrow> js_value" where
  "mirror_winner w = (if w = Num 1 then Num 2 else if w = Num 2 then Num 1 else w)"

definition mirror_category :: "category_result \<Rightarrow> category_result" where
  "mirror_category c =
     \<lparr>cat_name = cat_name c, winner = mirror_winner (winner c),
      id1_value = id2_value c, id2_value = id1_value c\<rparr>"

text \<open>The number of categories with a given winner.\<close>

definition wins_of :: "js_value \<Rightarrow> category_result list \<Rightarrow> nat" where
  "wins_of w cs = length (filter (\<lambda>c. winner c = w) cs)"


section \<open>Properties of the comparison\<close>

subsection \<open>The loop over the categories\<close>

lemma greater_than_asym: "greater_than a b \<Longrightarrow> \<not> greater_than b a"
  by (auto simp: greater_than_def split: option.splits)

lemma greater_than_Some: "greater_than (Some a) (Some b) \<longleftrightarrow> b < a"
  by (simp add: greater_than_def)

lemma greater_than_irrefl: "\<not> greater_than a a"
  by (auto simp: greater_than_def split: option.splits)

lemma callback_entry:
  "fst (category_callback A B cat w) =
     \<lparr>cat_name = cat,
      winner = (if greater_than (property (powerstats A) cat) (property (powerstats B) cat) then Num 1
                else if greater_than (property (powerstats B) cat) (property (powerstats A) cat) then Num 2
                else Str ''tie''),
      id1_value = property (powerstats A) cat,
      id2_value = property (powerstats B) cat\<rparr>"
  by (simp add: category_callback_def Let_def)

lemma callback_wins:
  "snd (category_callback A B cat (a, b)) =
     (a + (if winner (fst (category_callback A B cat (a, b))) = Num 1 then 1 else 0),
      b + (if winner (fst (category_callback A B cat (a, b))) = Num 2 then 1 else 0))"
  by (simp add: category_callback_def Let_def)

lemma map_categories_entries:
  "fst (map_categories A B cats w) = map (\<lambda>cat. fst (category_callback A B cat (0, 0))) cats"
proof (induction cats arbitrary: w)
  case Nil
  show ?case by simp
next
  case (Cons cat cats)
  have "fst (category_callback A B cat w) = fst (category_callback A B cat (0, 0))"
    by (simp add: callback_entry)
  with Cons show ?case by (simp add: Let_def)
qed

lemma map_categories_wins:
  "snd (map_categories A B cats (a, b)) =
     (a + wins_of (Num 1) (fst (map_categories A B cats (a, b))),
      b + wins_of (Num 2) (fst (map_categories A B cats (a, b))))"
proof (induction cats arbitrary: a b)
  case Nil
  show ?case by (simp add: wins_of_def)
next
  case (Cons cat cats)
  obtain a' b' where step: "snd (category_callback A B cat (a, b)) = (a', b')"
    by (cases "snd (category_callback A B cat (a, b))")
  have ab: "a' = a + (if winner (fst (category_callback A B cat (a, b))) = Num 1 then 1 else 0)"
           "b' = b + (if winner (fst (category_callback A B cat (a, b))) = Num 2 then 1 else 0)"
    using step callback_wins [of A B cat a b] by simp_all
  show ?case
    using Cons [of a' b'] step ab by (simp add: Let_def wins_of_def)
qed

lemma compare_found:
  assumes "find (\<lambda>h. strict_equals (hero_id h) (Number q1)) heroes = Some A"
      and "find (\<lambda>h. strict_equals (hero_id h) (Number q2)) heroes = Some B"
  shows "compare q1 q2 (Parsed heroes) =
           (\<lparr>status = 200,
             body = Json_comparison
               \<lparr>id1 = Number q1, id2 = Number q2,
                categories = fst (map_categories A B categoriesOrder (0, 0)),
                overall_winner =
                  (if snd (snd (map_categories A B categoriesOrder (0, 0)))
                        < fst (snd (map_categories A B categoriesOrder (0, 0))) then Num 1
                   else if fst (snd (map_categories A B categoriesOrder (0, 0)))
                        < snd (snd (map_categories A B categoriesOrder (0, 0))) then Num 2
                   else Str ''tie'')\<rparr>\<rparr>,
            [ReadFile])"
proof -
  from assms(1) have "strict_equals (hero_id A) (Number q1)"
    by (auto simp: find_Some_iff)
  then have n1: "\<not> isNaN (Number q1)"
    by (auto simp: strict_equals_def isNaN_def split: number.splits)
  from assms(2) have "strict_equals (hero_id B) (Number q2)"
    by (auto simp: find_Some_iff)
  then have n2: "\<not> isNaN (Number q2)"
    by (auto simp: strict_equals_def isNaN_def split: number.splits)
  show ?thesis
    using assms n1 n2 by (simp add: compare_def loadSuperheroes_def Let_def)
qed

lemma compare_status_200:
  assumes "status (fst (compare q1 q2 file)) = 200"
  shows "\<exists>heroes A B. file = Parsed heroes
           \<and> find (\<lambda>h. strict_equals (hero_id h) (Number q1)) heroes = Some A
           \<and> find (\<lambda>h. strict_equals (hero_id h) (Number q2)) heroes = Some B"
  using assms
  by (auto simp: compare_def loadSuperheroes_def Let_def
           split: if_splits data_file.splits option.splits)


lemma winner_cases:
  "winner (fst (category_callback A B cat w)) \<in> {Num 1, Num 2, Str ''tie''}"
  by (simp add: callback_entry)

lemma wins_of_total:
  assumes "\<forall>c \<in> set cs. winner c \<in> {Num 1, Num 2, Str ''tie''}"
  shows "wins_of (Num 1) cs + wins_of (Num 2) cs + wins_of (Str ''tie'') cs = length cs"
  using assms by (induction cs) (auto simp: wins_of_def)

lemma map_categories_winners:
  "\<forall>c \<in> set (fst (map_categories A B cats w)). winner c \<in> {Num 1, Num 2, Str ''tie''}"
  unfolding map_categories_entries using winner_cases by auto

lemma map_categories_length: "length (fst (map_categories A B cats w)) = length cats"
  unfolding map_categories_entries by simp

lemma length_categoriesOrder: "length categoriesOrder = 6"
  by (simp add: categoriesOrder_def)

lemma compare_success:
  assumes "status (fst (compare q1 q2 file)) = 200"
  obtains heroes A B where "file = Parsed heroes"
    and "find (\<lambda>h. strict_equals (hero_id h) (Number q1)) heroes = Some A"
    and "find (\<lambda>h. strict_equals (hero_id h) (Number q2)) heroes = Some B"
  using compare_status_200 [OF assms] by blast

lemma found_Finite:
  assumes "find (\<lambda>h. strict_equals (hero_id h) x) heroes = Some A"
  shows "x = Finite (of_int (hero_id A))"
proof -
  from assms have "strict_equals (hero_id A) x"
    by (auto simp: find_Some_iff)
  then show ?thesis
    by (cases x) (simp_all add: strict_equals_def)
qed

lemma categories_names:
  "map cat_name (fst (map_categories A B cats w)) = cats"
  unfolding map_categories_entries by (simp add: callback_entry o_def)

lemma categories_winner:
  assumes "c \<in> set (fst (map_categories A B cats w))"
  shows "winner c = (if greater_than (id1_value c) (id2_value c) then Num 1
                     else if greater_than (id2_value c) (id1_value c) then Num 2
                     else Str ''tie'')"
proof -
  from assms obtain cat where "c = fst (category_callback A B cat (0, 0))"
    unfolding map_categories_entries by auto
  then show ?thesis by (simp add: callback_entry)
qed

subsection \<open>Per-category winner\<close>

text \<open>
  C1. In a comparison of two resolved records every entry carries the two
  records' values for its category, and where both are integers the winner is 1
  exactly when the first value is strictly greater, 2 exactly when the second
  is, and \<^verbatim>\<open>tie\<close> exactly when they are equal. Two entries with the same pair
  of values have the same winner, whatever their names and positions.
\<close>

theorem category_winner_by_values:
  assumes "find (\<lambda>h. strict_equals (hero_id h) (Number q1)) heroes = Some A"
      and "find (\<lambda>h. strict_equals (hero_id h) (Number q2)) heroes = Some B"
  shows "\<exists>r. compare q1 q2 (Parsed heroes)
               = (\<lparr>status = 200, body = Json_comparison r\<rparr>, [ReadFile])
           \<and> map cat_name (categories r) = categoriesOrder
           \<and> (\<forall>c \<in> set (categories r).
                  id1_value c = property (powerstats A) (cat_name c)
                \<and> id2_value c = property (powerstats B) (cat_name c)
                \<and> (\<forall>a b. id1_value c = Some a \<and> id2_value c = Some b \<longrightarrow>
                       (winner c = Num 1 \<longleftrightarrow> b < a)
                     \<and> (winner c = Num 2 \<longleftrightarrow> a < b)
                     \<and> (winner c = Str ''tie'' \<longleftrightarrow> a = b)))
           \<and> (\<forall>c \<in> set (categories r). \<forall>d \<in> set (categories r).
                  id1_value c = id1_value d \<and> id2_value c = id2_value d \<longrightarrow>
                  winner c = winner d)"
proof -
  let ?cs = "fst (map_categories A B categoriesOrder (0, 0))"
  let ?entry = "\<lambda>cat. fst (category_callback A B cat (0, 0))"
  have cs: "?cs = map ?entry categoriesOrder"
    by (rule map_categories_entries)
  have names: "map cat_name ?cs = categoriesOrder"
    unfolding cs by (simp add: callback_entry o_def)
  have each: "id1_value c = property (powerstats A) (cat_name c)
            \<and> id2_value c = property (powerstats B) (cat_name c)
            \<and> winner c = (if greater_than (id1_value c) (id2_value c) then Num 1
                           else if greater_than (id2_value c) (id1_value c) then Num 2
                           else Str ''tie'')"
    if "c \<in> set ?cs" for c
  proof -
    from that obtain cat where "c = ?entry cat"
      unfolding cs by auto
    then show ?thesis by (simp add: callback_entry)
  qed
  have ordered: "(winner c = Num 1 \<longleftrightarrow> b < a) \<and> (winner c = Num 2 \<longleftrightarrow> a < b)
              \<and> (winner c = Str ''tie'' \<longleftrightarrow> a = b)"
    if "c \<in> set ?cs" "id1_value c = Some a" "id2_value c = Some b" for c a b
  proof -
    have "winner c = (if greater_than (id1_value c) (id2_value c) then Num 1
                      else if greater_than (id2_value c) (id1_value c) then Num 2
                      else Str ''tie'')"
      using each [OF that(1)] by blast
    then have "winner c = (if b < a then Num 1 else if a < b then Num 2 else Str ''tie'')"
      unfolding that(2,3) greater_than_Some .
    then show ?thesis by auto
  qed
  have same: "winner c = winner d"
    if "c \<in> set ?cs" "d \<in> set ?cs" "id1_value c = id1_value d" "id2_value c = id2_value d"
    for c d
    using each [OF that(1)] each [OF that(2)] that(3,4) by simp
  let ?r = "\<lparr>id1 = Number q1, id2 = Number q2, categories = ?cs,
             overall_winner =
               (if snd (snd (map_categories A B categoriesOrder (0, 0)))
                     < fst (snd (map_categories A B categoriesOrder (0, 0))) then Num 1
                else if fst (snd (map_categories A B categoriesOrder (0, 0)))
                     < snd (snd (map_categories A B categoriesOrder (0, 0))) then Num 2
                else Str ''tie'')\<rparr>"
  have r: "compare q1 q2 (Parsed heroes)
             = (\<lparr>status = 200, body = Json_comparison ?r\<rparr>, [ReadFile])"
    by (rule compare_found [OF assms])
  have cats: "categories ?r = ?cs" by simp
  show ?thesis
  proof (intro exI [of _ ?r] conjI ballI allI impI; (elim conjE)?)
    show "compare q1 q2 (Parsed heroes)
            = (\<lparr>status = 200, body = Json_comparison ?r\<rparr>, [ReadFile])"
      by (rule r)
    show "map cat_name (categories ?r) = categoriesOrder"
      unfolding cats by (rule names)
  next
    fix c assume "c \<in> set (categories ?r)"
    then have c: "c \<in> set ?cs" unfolding cats .
    show "id1_value c = property (powerstats A) (cat_name c)"
      using each [OF c] by blast
    show "id2_value c = property (powerstats B) (cat_name c)"
      using each [OF c] by blast
    fix a b assume ab: "id1_value c = Some a" "id2_value c = Some b"
    show "winner c = Num 1 \<longleftrightarrow> b < a"
      using ordered [OF c ab] by blast
    show "winner c = Num 2 \<longleftrightarrow> a < b"
      using ordered [OF c ab] by blast
    show "winner c = Str ''tie'' \<longleftrightarrow> a = b"
      using ordered [OF c ab] by blast
  next
    fix c d
    assume "c \<in> set (categories ?r)" "d \<in> set (categories ?r)"
       and "id1_value c = id1_value d" "id2_value c = id2_value d"
    then show "winner c = winner d"
      unfolding cats by (rule same)
  qed
qed

theorem category_winner_by_values_witness:
  "find (\<lambda>h. strict_equals (hero_id h) (Number (Some (QString ''1'')))) sample_catalog
     = Some hero_1
   \<and> find (\<lambda>h. strict_equals (hero_id h) (Number (Some (QString ''2'')))) sample_catalog
     = Some hero_2
   \<and> (\<exists>r. compare (Some (QString ''1'')) (Some (QString ''2'')) (Parsed sample_catalog)
               = (\<lparr>status = 200, body = Json_comparison r\<rparr>, [ReadFile])
           \<and> map cat_name (categories r) = categoriesOrder
           \<and> (\<forall>c \<in> set (categories r).
                  id1_value c = property (powerstats hero_1) (cat_name c)
                \<and> id2_value c = property (powerstats hero_2) (cat_name c)
                \<and> (\<forall>a b. id1_value c = Some a \<and> id2_value c = Some b \<longrightarrow>
                       (winner c = Num 1 \<longleftrightarrow> b < a)
                     \<and> (winner c = Num 2 \<longleftrightarrow> a < b)
                     \<and> (winner c = Str ''tie'' \<longleftrightarrow> a = b)))
           \<and> (\<forall>c \<in> set (categories r). \<forall>d \<in> set (categories r).
                  id1_value c = id1_value d \<and> id2_value c = id2_value d \<longrightarrow>
                  winner c = winner d))"
proof -
  have a: "find (\<lambda>h. strict_equals (hero_id h) (Number (Some (QString ''1'')))) sample_catalog
             = Some hero_1"
    by code_simp
  have b: "find (\<lambda>h. strict_equals (hero_id h) (Number (Some (QString ''2'')))) sample_catalog
             = Some hero_2"
    by code_simp
  show ?thesis
    by (intro conjI a b category_winner_by_values [OF a b])
qed

subsection \<open>Overall winner\<close>

text \<open>
  C2. In every successful comparison each of the six categories counts for the
  first side, for the second side or for neither, and the overall winner is 1
  exactly when the first side has more categories than the second, 2 exactly when
  it has fewer, and \<^verbatim>\<open>tie\<close> exactly when the two counts are equal.
\<close>

theorem overall_winner_by_wins:
  assumes "status (fst (compare q1 q2 file)) = 200"
  shows "\<exists>r. body (fst (compare q1 q2 file)) = Json_comparison r
           \<and> wins_of (Num 1) (categories r) + wins_of (Num 2) (categories r)
               + wins_of (Str ''tie'') (categories r) = 6
           \<and> (overall_winner r = Num 1 \<longleftrightarrow>
                wins_of (Num 2) (categories r) < wins_of (Num 1) (categories r))
           \<and> (overall_winner r = Num 2 \<longleftrightarrow>
                wins_of (Num 1) (categories r) < wins_of (Num 2) (categories r))
           \<and> (overall_winner r = Str ''tie'' \<longleftrightarrow>
                wins_of (Num 1) (categories r) = wins_of (Num 2) (categories r))"
proof -
  from assms obtain heroes A B where parsed: "file = Parsed heroes"
    and A: "find (\<lambda>h. strict_equals (hero_id h) (Number q1)) heroes = Some A"
    and B: "find (\<lambda>h. strict_equals (hero_id h) (Number q2)) heroes = Some B"
    by (rule compare_success)
  let ?m = "map_categories A B categoriesOrder (0, 0)"
  let ?cs = "fst ?m"
  let ?w1 = "wins_of (Num 1) ?cs"
  let ?w2 = "wins_of (Num 2) ?cs"
  let ?o = "if ?w2 < ?w1 then Num 1 else if ?w1 < ?w2 then Num 2 else Str ''tie''"
  let ?r = "\<lparr>id1 = Number q1, id2 = Number q2, categories = ?cs, overall_winner = ?o\<rparr>"
  have wins: "snd ?m = (?w1, ?w2)"
    using map_categories_wins [of A B categoriesOrder 0 0] by simp
  have "compare q1 q2 file = (\<lparr>status = 200, body = Json_comparison ?r\<rparr>, [ReadFile])"
    unfolding parsed compare_found [OF A B] wins by simp
  then have body: "body (fst (compare q1 q2 file)) = Json_comparison ?r"
    by simp
  have total: "?w1 + ?w2 + wins_of (Str ''tie'') ?cs = 6"
    using wins_of_total [OF map_categories_winners, of A B categoriesOrder "(0, 0)"]
    unfolding map_categories_length length_categoriesOrder .
  have o1: "?o = Num 1 \<longleftrightarrow> ?w2 < ?w1" by simp
  have o2: "?o = Num 2 \<longleftrightarrow> ?w1 < ?w2" by auto
  have o3: "?o = Str ''tie'' \<longleftrightarrow> ?w1 = ?w2" by auto
  show ?thesis
  proof (intro exI [of _ ?r] conjI)
    show "body (fst (compare q1 q2 file)) = Json_comparison ?r" by (rule body)
    show "wins_of (Num 1) (categories ?r) + wins_of (Num 2) (categories ?r)
            + wins_of (Str ''tie'') (categories ?r) = 6"
      using total by simp
    show "overall_winner ?r = Num 1 \<longleftrightarrow>
            wins_of (Num 2) (categories ?r) < wins_of (Num 1) (categories ?r)"
      using o1 by simp
    show "overall_winner ?r = Num 2 \<longleftrightarrow>
            wins_of (Num 1) (categories ?r) < wins_of (Num 2) (categories ?r)"
      using o2 by simp
    show "overall_winner ?r = Str ''tie'' \<longleftrightarrow>
            wins_of (Num 1) (categories ?r) = wins_of (Num 2) (categories ?r)"
      using o3 by simp
  qed
qed

theorem overall_winner_by_wins_witness:
  "status (fst (compare (Some (QString ''1'')) (Some (QString ''2'')) (Parsed sample_catalog))) = 200
   \<and> (\<exists>r. body (fst (compare (Some (QString ''1'')) (Some (QString ''2'')) (Parsed sample_catalog)))
               = Json_comparison r
           \<and> wins_of (Num 1) (categories r) + wins_of (Num 2) (categories r)
               + wins_of (Str ''tie'') (categories r) = 6
           \<and> (overall_winner r = Num 1 \<longleftrightarrow>
                wins_of (Num 2) (categories r) < wins_of (Num 1) (categories r))
           \<and> (overall_winner r = Num 2 \<longleftrightarrow>
                wins_of (Num 1) (categories r) < wins_of (Num 2) (categories r))
           \<and> (overall_winner r = Str ''tie'' \<longleftrightarrow>
                wins_of (Num 1) (categories r) = wins_of (Num 2) (categories r)))"
proof -
  have ok: "status (fst (compare (Some (QString ''1'')) (Some (QString ''2''))
                          (Parsed sample_catalog))) = 200"
    by code_simp
  show ?thesis
    by (intro conjI ok overall_winner_by_wins [OF ok])
qed

lemma categories_values:
  assumes "c \<in> set (fst (map_categories A B cats w))"
  shows "cat_name c \<in> set cats
       \<and> id1_value c = property (powerstats A) (cat_name c)
       \<and> id2_value c = property (powerstats B) (cat_name c)"
proof -
  from assms obtain cat where "cat \<in> set cats" "c = fst (category_callback A B cat (0, 0))"
    unfolding map_categories_entries by auto
  then show ?thesis by (simp add: callback_entry)
qed

lemma property_present:
  assumes "key \<in> set (map fst obj)"
  shows "\<exists>v. property obj key = Some v"
proof (cases "map_of obj key")
  case None
  then have "key \<notin> fst ` set obj" by (simp add: map_of_eq_None_iff)
  with assms show ?thesis by simp
next
  case (Some v)
  then show ?thesis by (simp add: property_def)
qed

subsection \<open>Shape of a comparison result\<close>

text \<open>
  C4. The body of every successful comparison echoes the two identifiers as the
  numbers they were coerced to (both integers), lists exactly six category
  records named intelligence, strength, speed, durability, power, combat in
  that order, and renders every winner, per category and overall, as the number
  1 (first side), the number 2 (second side) or the string \<^verbatim>\<open>tie\<close>. Each
  record holds, as \<^verbatim>\<open>id1_value\<close> and \<^verbatim>\<open>id2_value\<close>, what the first and the
  second resolved hero have under the record's category; for a hero whose
  \<^verbatim>\<open>powerstats\<close> has the six categories that is a number in every record.
\<close>

theorem comparison_result_shape:
  assumes "status (fst (compare q1 q2 file)) = 200"
  shows "\<exists>r n1 n2 heroes A B.
             file = Parsed heroes
           \<and> find (\<lambda>h. strict_equals (hero_id h) (Number q1)) heroes = Some A
           \<and> find (\<lambda>h. strict_equals (hero_id h) (Number q2)) heroes = Some B
           \<and> body (fst (compare q1 q2 file)) = Json_comparison r
           \<and> id1 r = Number q1 \<and> Number q1 = Finite (of_int n1)
           \<and> id2 r = Number q2 \<and> Number q2 = Finite (of_int n2)
           \<and> length (categories r) = 6
           \<and> map cat_name (categories r)
               = [''intelligence'', ''strength'', ''speed'', ''durability'', ''power'', ''combat'']
           \<and> (\<forall>c \<in> set (categories r).
                  id1_value c = property (powerstats A) (cat_name c)
                \<and> id2_value c = property (powerstats B) (cat_name c))
           \<and> (set categoriesOrder \<subseteq> set (map fst (powerstats A)) \<longrightarrow>
                (\<forall>c \<in> set (categories r). \<exists>a. id1_value c = Some a))
           \<and> (set categoriesOrder \<subseteq> set (map fst (powerstats B)) \<longrightarrow>
                (\<forall>c \<in> set (categories r). \<exists>b. id2_value c = Some b))
           \<and> (\<forall>c \<in> set (categories r).
                  winner c = (if greater_than (id1_value c) (id2_value c) then Num 1
                              else if greater_than (id2_value c) (id1_value c) then Num 2
                              else Str ''tie''))
           \<and> overall_winner r
               = (if wins_of (Num 2) (categories r) < wins_of (Num 1) (categories r) then Num 1
                  else if wins_of (Num 1) (categories r) < wins_of (Num 2) (categories r) then Num 2
                  else Str ''tie'')
           \<and> (\<forall>c \<in> set (categories r). winner c \<in> {Num 1, Num 2, Str ''tie''})
           \<and> overall_winner r \<in> {Num 1, Num 2, Str ''tie''}"
proof -
  from assms obtain heroes A B where parsed: "file = Parsed heroes"
    and A: "find (\<lambda>h. strict_equals (hero_id h) (Number q1)) heroes = Some A"
    and B: "find (\<lambda>h. strict_equals (hero_id h) (Number q2)) heroes = Some B"
    by (rule compare_success)
  let ?m = "map_categories A B categoriesOrder (0, 0)"
  let ?cs = "fst ?m"
  let ?w1 = "wins_of (Num 1) ?cs"
  let ?w2 = "wins_of (Num 2) ?cs"
  let ?o = "if ?w2 < ?w1 then Num 1 else if ?w1 < ?w2 then Num 2 else Str ''tie''"
  let ?r = "\<lparr>id1 = Number q1, id2 = Number q2, categories = ?cs, overall_winner = ?o\<rparr>"
  have wins: "snd ?m = (?w1, ?w2)"
    using map_categories_wins [of A B categoriesOrder 0 0] by simp
  have "compare q1 q2 file = (\<lparr>status = 200, body = Json_comparison ?r\<rparr>, [ReadFile])"
    unfolding parsed compare_found [OF A B] wins by simp
  then have body: "body (fst (compare q1 q2 file)) = Json_comparison ?r"
    by simp
  have cats: "categories ?r = ?cs" and over: "overall_winner ?r = ?o"
    by simp_all
  show ?thesis
  proof (rule exI [of _ ?r], rule exI [of _ "hero_id A"], rule exI [of _ "hero_id B"],
         rule exI [of _ heroes], rule exI [of _ A], rule exI [of _ B],
         intro conjI ballI impI)
    show "file = Parsed heroes" by (rule parsed)
    show "find (\<lambda>h. strict_equals (hero_id h) (Number q1)) heroes = Some A" by (rule A)
    show "find (\<lambda>h. strict_equals (hero_id h) (Number q2)) heroes = Some B" by (rule B)
    show "body (fst (compare q1 q2 file)) = Json_comparison ?r" by (rule body)
    show "id1 ?r = Number q1" by simp
    show "id2 ?r = Number q2" by simp
    show "Number q1 = Finite (of_int (hero_id A))" by (rule found_Finite [OF A])
    show "Number q2 = Finite (of_int (hero_id B))" by (rule found_Finite [OF B])
    show "length (categories ?r) = 6"
      unfolding cats map_categories_length by (rule length_categoriesOrder)
    show "map cat_name (categories ?r)
            = [''intelligence'', ''strength'', ''speed'', ''durability'', ''power'', ''combat'']"
      unfolding cats categories_names by (simp add: categoriesOrder_def)
    show "overall_winner ?r
            = (if wins_of (Num 2) (categories ?r) < wins_of (Num 1) (categories ?r) then Num 1
               else if wins_of (Num 1) (categories ?r) < wins_of (Num 2) (categories ?r) then Num 2
               else Str ''tie'')"
      unfolding cats over ..
    show "overall_winner ?r \<in> {Num 1, Num 2, Str ''tie''}"
      unfolding over by simp
  next
    fix c assume "c \<in> set (categories ?r)"
    then have c: "c \<in> set ?cs" unfolding cats .
    show "id1_value c = property (powerstats A) (cat_name c)"
      using categories_values [OF c] by blast
  next
    fix c assume "c \<in> set (categories ?r)"
    then have c: "c \<in> set ?cs" unfolding cats .
    show "id2_value c = property (powerstats B) (cat_name c)"
      using categories_values [OF c] by blast
  next
    fix c
    assume keys: "set categoriesOrder \<subseteq> set (map fst (powerstats A))"
      and "c \<in> set (categories ?r)"
    then have c: "c \<in> set ?cs" unfolding cats by blast
    have "cat_name c \<in> set (map fst (powerstats A))"
      using categories_values [OF c] keys by blast
    then have "\<exists>a. property (powerstats A) (cat_name c) = Some a"
      by (rule property_present)
    then show "\<exists>a. id1_value c = Some a"
      using categories_values [OF c] by simp
  next
    fix c
    assume keys: "set categoriesOrder \<subseteq> set (map fst (powerstats B))"
      and "c \<in> set (categories ?r)"
    then have c: "c \<in> set ?cs" unfolding cats by blast
    have "cat_name c \<in> set (map fst (powerstats B))"
      using categories_values [OF c] keys by blast
    then have "\<exists>b. property (powerstats B) (cat_name c) = Some b"
      by (rule property_present)
    then show "\<exists>b. id2_value c = Some b"
      using categories_values [OF c] by simp
  next
    fix c assume "c \<in> set (categories ?r)"
    then have c: "c \<in> set ?cs" unfolding cats .
    show "winner c = (if greater_than (id1_value c) (id2_value c) then Num 1
                      else if greater_than (id2_value c) (id1_value c) then Num 2
                      else Str ''tie'')"
      by (rule categories_winner [OF c])
  next
    fix c assume "c \<in> set (categories ?r)"
    then have c: "c \<in> set ?cs" unfolding cats .
    show "winner c \<in> {Num 1, Num 2, Str ''tie''}"
      using map_categories_winners c by blast
  qed
qed

theorem comparison_result_shape_witness:
  "status (fst (compare (Some (QString ''1'')) (Some (QString ''2'')) (Parsed sample_catalog))) = 200
   \<and> find (\<lambda>h. strict_equals (hero_id h) (Number (Some (QString ''1'')))) sample_catalog
       = Some hero_1
   \<and> find (\<lambda>h. strict_equals (hero_id h) (Number (Some (QString ''2'')))) sample_catalog
       = Some hero_2
   \<and> set categoriesOrder \<subseteq> set (map fst (powerstats hero_1))
   \<and> set categoriesOrder \<subseteq> set (map fst (powerstats hero_2))
   \<and> (\<exists>r n1 n2 heroes A B.
          Parsed sample_catalog = Parsed heroes
        \<and> find (\<lambda>h. strict_equals (hero_id h) (Number (Some (QString ''1'')))) heroes = Some A
        \<and> find (\<lambda>h. strict_equals (hero_id h) (Number (Some (QString ''2'')))) heroes = Some B
        \<and> body (fst (compare (Some (QString ''1'')) (Some (QString ''2'')) (Parsed sample_catalog)))
            = Json_comparison r
        \<and> id1 r = Number (Some (QString ''1'')) \<and> Number (Some (QString ''1'')) = Finite (of_int n1)
        \<and> id2 r = Number (Some (QString ''2'')) \<and> Number (Some (QString ''2'')) = Finite (of_int n2)
        \<and> length (categories r) = 6
        \<and> map cat_name (categories r)
            = [''intelligence'', ''strength'', ''speed'', ''durability'', ''power'', ''combat'']
        \<and> (\<forall>c \<in> set (categories r).
               id1_value c = property (powerstats A) (cat_name c)
             \<and> id2_value c = property (powerstats B) (cat_name c))
        \<and> (set categoriesOrder \<subseteq> set (map fst (powerstats A)) \<longrightarrow>
             (\<forall>c \<in> set (categories r). \<exists>a. id1_value c = Some a))
        \<and> (set categoriesOrder \<subseteq> set (map fst (powerstats B)) \<longrightarrow>
             (\<forall>c \<in> set (categories r). \<exists>b. id2_value c = Some b))
        \<and> (\<forall>c \<in> set (categories r).
               winner c = (if greater_than (id1_value c) (id2_value c) then Num 1
                           else if greater_than (id2_value c) (id1_value c) then Num 2
                           else Str ''tie''))
        \<and> overall_winner r
            = (if wins_of (Num 2) (categories r) < wins_of (Num 1) (categories r) then Num 1
               else if wins_of (Num 1) (categories r) < wins_of (Num 2) (categories r) then Num 2
               else Str ''tie'')
        \<and> (\<forall>c \<in> set (categories r). winner c \<in> {Num 1, Num 2, Str ''tie''})
        \<and> overall_winner r \<in> {Num 1, Num 2, Str ''tie''})
   \<and> compare (Some (QString ''1'')) (Some (QString ''2'')) (Parsed sample_catalog)
       = (\<lparr>status = 200,
           body = Json_comparison
             \<lparr>id1 = Finite 1, id2 = Finite 2,
              categories =
                [\<lparr>cat_name = ''intelligence'', winner = Num 2,
                  id1_value = Some 38, id2_value = Some 100\<rparr>,
                 \<lparr>cat_name = ''strength'', winner = Num 1,
                  id1_value = Some 100, id2_value = Some 18\<rparr>,
                 \<lparr>cat_name = ''speed'', winner = Num 2,
                  id1_value = Some 17, id2_value = Some 23\<rparr>,
                 \<lparr>cat_name = ''durability'', winner = Num 1,
                  id1_value = Some 80, id2_value = Some 28\<rparr>,
                 \<lparr>cat_name = ''power'', winner = Num 2,
                  id1_value = Some 24, id2_value = Some 32\<rparr>,
                 \<lparr>cat_name = ''combat'', winner = Num 1,
                  id1_value = Some 64, id2_value = Some 32\<rparr>],
              overall_winner = Str ''tie''\<rparr>\<rparr>,
          [ReadFile])"
proof -
  have ok: "status (fst (compare (Some (QString ''1'')) (Some (QString ''2''))
                          (Parsed sample_catalog))) = 200"
    by code_simp
  have a: "find (\<lambda>h. strict_equals (hero_id h) (Number (Some (QString ''1'')))) sample_catalog
             = Some hero_1"
    by code_simp
  have b: "find (\<lambda>h. strict_equals (hero_id h) (Number (Some (QString ''2'')))) sample_catalog
             = Some hero_2"
    by code_simp
  have k1: "set categoriesOrder \<subseteq> set (map fst (powerstats hero_1))"
    by (simp add: categoriesOrder_def hero_1_def)
  have k2: "set categoriesOrder \<subseteq> set (map fst (powerstats hero_2))"
    by (simp add: categoriesOrder_def hero_2_def)
  have v: "compare (Some (QString ''1'')) (Some (QString ''2'')) (Parsed sample_catalog)
         = (\<lparr>status = 200,
             body = Json_comparison
               \<lparr>id1 = Finite 1, id2 = Finite 2,
                categories =
                  [\<lparr>cat_name = ''intelligence'', winner = Num 2,
                    id1_value = Some 38, id2_value = Some 100\<rparr>,
                   \<lparr>cat_name = ''strength'', winner = Num 1,
                    id1_value = Some 100, id2_value = Some 18\<rparr>,
                   \<lparr>cat_name = ''speed'', winner = Num 2,
                    id1_value = Some 17, id2_value = Some 23\<rparr>,
                   \<lparr>cat_name = ''durability'', winner = Num 1,
                    id1_value = Some 80, id2_value = Some 28\<rparr>,
                   \<lparr>cat_name = ''power'', winner = Num 2,
                    id1_value = Some 24, id2_value = Some 32\<rparr>,
                   \<lparr>cat_name = ''combat'', winner = Num 1,
                    id1_value = Some 64, id2_value = Some 32\<rparr>],
                overall_winner = Str ''tie''\<rparr>\<rparr>,
            [ReadFile])"
    by code_simp
  show ?thesis
    by (intro conjI ok a b k1 k2 v comparison_result_shape [OF ok])
qed

lemma callback_mirror:
  "fst (category_callback B A cat w) = mirror_category (fst (category_callback A B cat w'))"
  using greater_than_asym [of "property (powerstats A) cat" "property (powerstats B) cat"]
  by (simp add: callback_entry mirror_category_def mirror_winner_def)

lemma categories_mirror:
  "fst (map_categories B A cats w) = map mirror_category (fst (map_categories A B cats w'))"
  unfolding map_categories_entries
  by (simp add: callback_mirror [of B A _ "(0, 0)" "(0, 0)"])

lemma mirror_winner_1: "mirror_winner w = Num 1 \<longleftrightarrow> w = Num 2"
  by (simp add: mirror_winner_def)

lemma mirror_winner_2: "mirror_winner w = Num 2 \<longleftrightarrow> w = Num 1"
  by (simp add: mirror_winner_def)

lemma wins_of_mirror_1: "wins_of (Num 1) (map mirror_category cs) = wins_of (Num 2) cs"
  by (induction cs) (simp_all add: wins_of_def mirror_category_def mirror_winner_1)

lemma wins_of_mirror_2: "wins_of (Num 2) (map mirror_category cs) = wins_of (Num 1) cs"
  by (induction cs) (simp_all add: wins_of_def mirror_category_def mirror_winner_2)

lemma compare_found_wins:
  assumes "find (\<lambda>h. strict_equals (hero_id h) (Number q1)) heroes = Some A"
      and "find (\<lambda>h. strict_equals (hero_id h) (Number q2)) heroes = Some B"
  shows "compare q1 q2 (Parsed heroes) =
           (\<lparr>status = 200,
             body = Json_comparison
               \<lparr>id1 = Number q1, id2 = Number q2,
                categories = fst (map_categories A B categoriesOrder (0, 0)),
                overall_winner =
                  (if wins_of (Num 2) (fst (map_categories A B categoriesOrder (0, 0)))
                        < wins_of (Num 1) (fst (map_categories A B categoriesOrder (0, 0)))
                   then Num 1
                   else if wins_of (Num 1) (fst (map_categories A B categoriesOrder (0, 0)))
                        < wins_of (Num 2) (fst (map_categories A B categoriesOrder (0, 0)))
                   then Num 2
                   else Str ''tie'')\<rparr>\<rparr>,
            [ReadFile])"
proof -
  have "snd (map_categories A B categoriesOrder (0, 0))
          = (wins_of (Num 1) (fst (map_categories A B categoriesOrder (0, 0))),
             wins_of (Num 2) (fst (map_categories A B categoriesOrder (0, 0))))"
    using map_categories_wins [of A B categoriesOrder 0 0] by simp
  then show ?thesis
    unfolding compare_found [OF assms] by simp
qed

subsection \<open>Mirror image\<close>

text \<open>
  C5. For two resolved records, comparing them in the other order gives the
  mirror image: the same six categories in the same order, in each of them the
  two values exchanged and the winner 1 turned into 2 and 2 into 1 (a tie stays
  a tie), and the overall winner turned the same way.
\<close>

theorem compare_mirror:
  assumes "find (\<lambda>h. strict_equals (hero_id h) (Number q1)) heroes = Some A"
      and "find (\<lambda>h. strict_equals (hero_id h) (Number q2)) heroes = Some B"
  shows "\<exists>r m. compare q1 q2 (Parsed heroes)
                 = (\<lparr>status = 200, body = Json_comparison r\<rparr>, [ReadFile])
             \<and> compare q2 q1 (Parsed heroes)
                 = (\<lparr>status = 200, body = Json_comparison m\<rparr>, [ReadFile])
             \<and> length (categories r) = 6
             \<and> map cat_name (categories r) = categoriesOrder
             \<and> map cat_name (categories m) = categoriesOrder
             \<and> categories m = map mirror_category (categories r)
             \<and> overall_winner m = mirror_winner (overall_winner r)
             \<and> id1 m = id2 r \<and> id2 m = id1 r"
proof -
  let ?cs = "fst (map_categories A B categoriesOrder (0, 0))"
  let ?ms = "fst (map_categories B A categoriesOrder (0, 0))"
  let ?o = "if wins_of (Num 2) ?cs < wins_of (Num 1) ?cs then Num 1
            else if wins_of (Num 1) ?cs < wins_of (Num 2) ?cs then Num 2 else Str ''tie''"
  let ?p = "if wins_of (Num 2) ?ms < wins_of (Num 1) ?ms then Num 1
            else if wins_of (Num 1) ?ms < wins_of (Num 2) ?ms then Num 2 else Str ''tie''"
  let ?r = "\<lparr>id1 = Number q1, id2 = Number q2, categories = ?cs, overall_winner = ?o\<rparr>"
  let ?m = "\<lparr>id1 = Number q2, id2 = Number q1, categories = ?ms, overall_winner = ?p\<rparr>"
  have ms: "?ms = map mirror_category ?cs"
    by (rule categories_mirror)
  have p: "?p = mirror_winner ?o"
    unfolding ms wins_of_mirror_1 wins_of_mirror_2 by (simp add: mirror_winner_def)
  show ?thesis
  proof (rule exI [of _ ?r], rule exI [of _ ?m], intro conjI)
    show "compare q1 q2 (Parsed heroes)
            = (\<lparr>status = 200, body = Json_comparison ?r\<rparr>, [ReadFile])"
      by (rule compare_found_wins [OF assms])
    show "compare q2 q1 (Parsed heroes)
            = (\<lparr>status = 200, body = Json_comparison ?m\<rparr>, [ReadFile])"
      by (rule compare_found_wins [OF assms(2) assms(1)])
    show "length (categories ?r) = 6"
      by (simp add: map_categories_length length_categoriesOrder)
    show "map cat_name (categories ?r) = categoriesOrder"
      by (simp add: categories_names)
    show "map cat_name (categories ?m) = categoriesOrder"
      by (simp add: categories_names)
    show "categories ?m = map mirror_category (categories ?r)"
      using ms by simp
    show "overall_winner ?m = mirror_winner (overall_winner ?r)"
      using p by simp
    show "id1 ?m = id2 ?r" by simp
    show "id2 ?m = id1 ?r" by simp
  qed
qed

theorem compare_mirror_witness:
  "find (\<lambda>h. strict_equals (hero_id h) (Number (Some (QString ''10'')))) sample_catalog
     = Some hero_10
   \<and> find (\<lambda>h. strict_equals (hero_id h) (Number (Some (QString ''2'')))) sample_catalog
     = Some hero_2
   \<and> (\<exists>r m. compare (Some (QString ''10'')) (Some (QString ''2'')) (Parsed sample_catalog)
                 = (\<lparr>status = 200, body = Json_comparison r\<rparr>, [ReadFile])
             \<and> compare (Some (QString ''2'')) (Some (QString ''10'')) (Parsed sample_catalog)
                 = (\<lparr>status = 200, body = Json_comparison m\<rparr>, [ReadFile])
             \<and> length (categories r) = 6
             \<and> map cat_name (categories r) = categoriesOrder
             \<and> map cat_name (categories m) = categoriesOrder
             \<and> categories m = map mirror_category (categories r)
             \<and> overall_winner m = mirror_winner (overall_winner r)
             \<and> id1 m = id2 r \<and> id2 m = id1 r)"
proof -
  have a: "find (\<lambda>h. strict_equals (hero_id h) (Number (Some (QString ''10'')))) sample_catalog
             = Some hero_10"
    by code_simp
  have b: "find (\<lambda>h. strict_equals (hero_id h) (Number (Some (QString ''2'')))) sample_catalog
             = Some hero_2"
    by code_simp
  show ?thesis
    by (intro conjI a b compare_mirror [OF a b])
qed

lemma callback_self:
  "fst (category_callback A A cat w) =
     \<lparr>cat_name = cat, winner = Str ''tie'',
      id1_value = property (powerstats A) cat, id2_value = property (powerstats A) cat\<rparr>"
  by (simp add: callback_entry greater_than_irrefl)

lemma wins_of_none:
  assumes "\<forall>c \<in> set cs. winner c \<noteq> w"
  shows "wins_of w cs = 0"
  using assms by (simp add: wins_of_def)

subsection \<open>Self-comparison\<close>

text \<open>
  C6. When both identifiers resolve to the same record, all six categories are
  ties and the overall winner is \<^verbatim>\<open>tie\<close>.
\<close>

theorem compare_self:
  assumes "find (\<lambda>h. strict_equals (hero_id h) (Number q1)) heroes = Some A"
      and "find (\<lambda>h. strict_equals (hero_id h) (Number q2)) heroes = Some A"
  shows "\<exists>r. compare q1 q2 (Parsed heroes)
               = (\<lparr>status = 200, body = Json_comparison r\<rparr>, [ReadFile])
           \<and> length (categories r) = 6
           \<and> map cat_name (categories r) = categoriesOrder
           \<and> (\<forall>c \<in> set (categories r). winner c = Str ''tie'')
           \<and> overall_winner r = Str ''tie''"
proof -
  let ?cs = "fst (map_categories A A categoriesOrder (0, 0))"
  let ?o = "if wins_of (Num 2) ?cs < wins_of (Num 1) ?cs then Num 1
            else if wins_of (Num 1) ?cs < wins_of (Num 2) ?cs then Num 2 else Str ''tie''"
  let ?r = "\<lparr>id1 = Number q1, id2 = Number q2, categories = ?cs, overall_winner = ?o\<rparr>"
  have ties: "\<forall>c \<in> set ?cs. winner c = Str ''tie''"
    unfolding map_categories_entries by (simp add: callback_self)
  have "wins_of (Num 1) ?cs = 0" "wins_of (Num 2) ?cs = 0"
    using ties by (simp_all add: wins_of_none)
  then have o: "?o = Str ''tie''"
    by simp
  show ?thesis
  proof (rule exI [of _ ?r], intro conjI)
    show "compare q1 q2 (Parsed heroes)
            = (\<lparr>status = 200, body = Json_comparison ?r\<rparr>, [ReadFile])"
      by (rule compare_found_wins [OF assms])
    show "length (categories ?r) = 6"
      by (simp add: map_categories_length length_categoriesOrder)
    show "map cat_name (categories ?r) = categoriesOrder"
      by (simp add: categories_names)
    show "\<forall>c \<in> set (categories ?r). winner c = Str ''tie''"
      using ties by simp
    show "overall_winner ?r = Str ''tie''"
      using o by simp
  qed
qed

theorem compare_self_witness:
  "find (\<lambda>h. strict_equals (hero_id h) (Number (Some (QString ''2'')))) sample_catalog
     = Some hero_2
   \<and> find (\<lambda>h. strict_equals (hero_id h) (Number (Some (QString ''2.0'')))) sample_catalog
     = Some hero_2
   \<and> (\<exists>r. compare (Some (QString ''2'')) (Some (QString ''2.0'')) (Parsed sample_catalog)
               = (\<lparr>status = 200, body = Json_comparison r\<rparr>, [ReadFile])
           \<and> length (categories r) = 6
           \<and> map cat_name (categories r) = categoriesOrder
           \<and> (\<forall>c \<in> set (categories r). winner c = Str ''tie'')
           \<and> overall_winner r = Str ''tie'')"
proof -
  have a: "find (\<lambda>h. strict_equals (hero_id h) (Number (Some (QString ''2'')))) sample_catalog
             = Some hero_2"
    by code_simp
  have b: "find (\<lambda>h. strict_equals (hero_id h) (Number (Some (QString ''2.0'')))) sample_catalog
             = Some hero_2"
    by code_simp
  show ?thesis
    by (intro conjI a b compare_self [OF a b])
qed

subsection \<open>Identifiers that do not resolve\<close>

text \<open>
  C7. When both identifiers are numbers and at least one of them matches no
  record of the catalog, the response is 404 with one fixed error text, the
  same whichever identifier failed, and it is never a comparison.
\<close>

theorem compare_not_found:
  assumes "\<not> isNaN (Number q1)" and "\<not> isNaN (Number q2)"
      and "find (\<lambda>h. strict_equals (hero_id h) (Number q1)) heroes = None
           \<or> find (\<lambda>h. strict_equals (hero_id h) (Number q2)) heroes = None"
  shows "compare q1 q2 (Parsed heroes)
           = (\<lparr>status = 404, body = Json_error ''Superhero not found''\<rparr>, [ReadFile])
         \<and> status (fst (compare q1 q2 (Parsed heroes))) \<noteq> 200
         \<and> (\<forall>r. body (fst (compare q1 q2 (Parsed heroes))) \<noteq> Json_comparison r)"
proof -
  have "compare q1 q2 (Parsed heroes)
          = (\<lparr>status = 404, body = Json_error ''Superhero not found''\<rparr>, [ReadFile])"
    using assms
    by (auto simp: compare_def loadSuperheroes_def Let_def split: option.splits)
  then show ?thesis by simp
qed

theorem compare_not_found_witness:
  "\<not> isNaN (Number (Some (QString ''1''))) \<and> \<not> isNaN (Number (Some (QString ''99999'')))
   \<and> (find (\<lambda>h. strict_equals (hero_id h) (Number (Some (QString ''1'')))) sample_catalog = None
        \<or> find (\<lambda>h. strict_equals (hero_id h) (Number (Some (QString ''99999'')))) sample_catalog
            = None)
   \<and> compare (Some (QString ''1'')) (Some (QString ''99999'')) (Parsed sample_catalog)
       = (\<lparr>status = 404, body = Json_error ''Superhero not found''\<rparr>, [ReadFile])
   \<and> status (fst (compare (Some (QString ''1'')) (Some (QString ''99999''))
                     (Parsed sample_catalog))) \<noteq> 200
   \<and> (\<forall>r. body (fst (compare (Some (QString ''1'')) (Some (QString ''99999''))
                         (Parsed sample_catalog))) \<noteq> Json_comparison r)"
proof -
  have a: "\<not> isNaN (Number (Some (QString ''1'')))"
    by code_simp
  have b: "\<not> isNaN (Number (Some (QString ''99999'')))"
    by code_simp
  have "find (\<lambda>h. strict_equals (hero_id h) (Number (Some (QString ''99999'')))) sample_catalog
          = None"
    by code_simp
  then have c: "find (\<lambda>h. strict_equals (hero_id h) (Number (Some (QString ''1''))))
                  sample_catalog = None
                \<or> find (\<lambda>h. strict_equals (hero_id h) (Number (Some (QString ''99999''))))
                  sample_catalog = None"
    by (rule disjI2)
  show ?thesis
    by (rule conjI [OF a], rule conjI [OF b], rule conjI [OF c])
       (rule compare_not_found [OF a b c])
qed

section \<open>Properties of all four routes\<close>

subsection \<open>A data file that cannot be loaded\<close>



lemma distinct_categoriesOrder: "distinct categoriesOrder"
  by (simp add: categoriesOrder_def)

lemma set_categoriesOrder:
  "set categoriesOrder
     = {''intelligence'', ''strength'', ''speed'', ''durability'', ''power'', ''combat''}"
  by (simp add: categoriesOrder_def)

lemma six_keys:
  assumes "distinct ks" and "set ks = set categoriesOrder"
  shows "length ks = 6"
proof -
  have "length ks = card (set ks)"
    using assms(1) by (simp add: distinct_card)
  also have "\<dots> = card (set categoriesOrder)"
    using assms(2) by simp
  also have "\<dots> = length categoriesOrder"
    using distinct_categoriesOrder by (rule distinct_card)
  finally show ?thesis
    by (simp add: length_categoriesOrder)
qed

lemma getStatline_found:
  assumes "find (\<lambda>hero. String_of_id (hero_id hero) = ident) heroes = Some h"
  shows "getStatline ident (Parsed heroes)
           = (\<lparr>status = 200, body = Json_powerstats (powerstats h)\<rparr>, [ReadFile])"
  using assms by (simp add: getStatline_def loadSuperheroes_def)

lemma getStatline_missing:
  assumes "find (\<lambda>hero. String_of_id (hero_id hero) = ident) heroes = None"
  shows "getStatline ident (Parsed heroes)
           = (\<lparr>status = 404, body = Text ''Superhero not found''\<rparr>, [ReadFile])"
  using assms by (simp add: getStatline_def loadSuperheroes_def)

subsection \<open>The statline route\<close>

text \<open>
  C9. For an identifier that matches a record whose \<^verbatim>\<open>powerstats\<close> object has
  exactly the six category keys, the statline route answers 200 with that object
  itself: six pairs, keyed by the six categories, no \<^verbatim>\<open>id\<close> and no
  \<^verbatim>\<open>name\<close>, and not the record around it. For an identifier that matches no
  record it answers 404.
\<close>

theorem getStatline_statline_alone:
  "(find (\<lambda>hero. String_of_id (hero_id hero) = ident) heroes = Some h
      \<and> distinct (map fst (powerstats h))
      \<and> set (map fst (powerstats h)) = set categoriesOrder
    \<longrightarrow> getStatline ident (Parsed heroes)
          = (\<lparr>status = 200, body = Json_powerstats (powerstats h)\<rparr>, [ReadFile])
        \<and> length (powerstats h) = 6
        \<and> set (map fst (powerstats h))
            = {''intelligence'', ''strength'', ''speed'', ''durability'', ''power'', ''combat''}
        \<and> ''id'' \<notin> set (map fst (powerstats h))
        \<and> ''name'' \<notin> set (map fst (powerstats h))
        \<and> (\<forall>x. body (fst (getStatline ident (Parsed heroes))) \<noteq> Json_hero x))
   \<and> (find (\<lambda>hero. String_of_id (hero_id hero) = ident) heroes = None
    \<longrightarrow> getStatline ident (Parsed heroes)
          = (\<lparr>status = 404, body = Text ''Superhero not found''\<rparr>, [ReadFile]))"
proof (intro conjI impI; (elim conjE)?)
  assume found: "find (\<lambda>hero. String_of_id (hero_id hero) = ident) heroes = Some h"
    and d: "distinct (map fst (powerstats h))"
    and k: "set (map fst (powerstats h)) = set categoriesOrder"
  show r: "getStatline ident (Parsed heroes)
          = (\<lparr>status = 200, body = Json_powerstats (powerstats h)\<rparr>, [ReadFile])"
    by (rule getStatline_found [OF found])
  show "length (powerstats h) = 6"
    using six_keys [OF d k] by simp
  show keys: "set (map fst (powerstats h))
          = {''intelligence'', ''strength'', ''speed'', ''durability'', ''power'', ''combat''}"
    unfolding k by (rule set_categoriesOrder)
  show "''id'' \<notin> set (map fst (powerstats h))"
    unfolding keys by simp
  show "''name'' \<notin> set (map fst (powerstats h))"
    unfolding keys by simp
  show "\<forall>x. body (fst (getStatline ident (Parsed heroes))) \<noteq> Json_hero x"
    unfolding r by simp
next
  assume "find (\<lambda>hero. String_of_id (hero_id hero) = ident) heroes = None"
  then show "getStatline ident (Parsed heroes)
          = (\<lparr>status = 404, body = Text ''Superhero not found''\<rparr>, [ReadFile])"
    by (rule getStatline_missing)
qed

theorem getStatline_statline_alone_witness:
  "find (\<lambda>hero. String_of_id (hero_id hero) = ''2'') sample_catalog = Some hero_2
   \<and> distinct (map fst (powerstats hero_2))
   \<and> set (map fst (powerstats hero_2)) = set categoriesOrder
   \<and> getStatline ''2'' (Parsed sample_catalog)
       = (\<lparr>status = 200,
           body = Json_powerstats
             [(''intelligence'', 100), (''strength'', 18), (''speed'', 23),
              (''durability'', 28), (''power'', 32), (''combat'', 32)]\<rparr>,
          [ReadFile])
   \<and> length (powerstats hero_2) = 6
   \<and> find (\<lambda>hero. String_of_id (hero_id hero) = ''9999'') sample_catalog = None
   \<and> getStatline ''9999'' (Parsed sample_catalog)
       = (\<lparr>status = 404, body = Text ''Superhero not found''\<rparr>, [ReadFile])"
proof -
  have a: "find (\<lambda>hero. String_of_id (hero_id hero) = ''2'') sample_catalog = Some hero_2"
    by code_simp
  have b: "distinct (map fst (powerstats hero_2))"
    by code_simp
  have c: "set (map fst (powerstats hero_2)) = set categoriesOrder"
    by (simp add: hero_2_def categoriesOrder_def)
  have d: "find (\<lambda>hero. String_of_id (hero_id hero) = ''9999'') sample_catalog = None"
    by code_simp
  have p: "powerstats hero_2
             = [(''intelligence'', 100), (''strength'', 18), (''speed'', 23),
                (''durability'', 28), (''power'', 32), (''combat'', 32)]"
    by (simp add: hero_2_def)
  note t = getStatline_statline_alone [of "''2''" sample_catalog hero_2]
  note u = getStatline_statline_alone [of "''9999''" sample_catalog hero_2]
  have r: "getStatline ''2'' (Parsed sample_catalog)
             = (\<lparr>status = 200, body = Json_powerstats (powerstats hero_2)\<rparr>, [ReadFile])"
       and n: "length (powerstats hero_2) = 6"
    using t a b c by blast+
  have m: "getStatline ''9999'' (Parsed sample_catalog)
             = (\<lparr>status = 404, body = Text ''Superhero not found''\<rparr>, [ReadFile])"
    using u d by blast
  show ?thesis
    by (intro conjI a b c d n m r [unfolded p])
qed

lemma find_Some_ex: "(\<exists>x. find P xs = Some x) \<longleftrightarrow> (\<exists>x \<in> set xs. P x)"
  by (induction xs) auto

lemma compare_status_iff:
  "status (fst (compare q1 q2 (Parsed heroes))) = 200 \<longleftrightarrow>
     (\<exists>h \<in> set heroes. strict_equals (hero_id h) (Number q1))
   \<and> (\<exists>h \<in> set heroes. strict_equals (hero_id h) (Number q2))"
proof
  assume "status (fst (compare q1 q2 (Parsed heroes))) = 200"
  then obtain hs A B where "Parsed heroes = Parsed hs"
    and "find (\<lambda>h. strict_equals (hero_id h) (Number q1)) hs = Some A"
    and "find (\<lambda>h. strict_equals (hero_id h) (Number q2)) hs = Some B"
    by (rule compare_success)
  then have "\<exists>x. find (\<lambda>h. strict_equals (hero_id h) (Number q1)) heroes = Some x"
    and "\<exists>x. find (\<lambda>h. strict_equals (hero_id h) (Number q2)) heroes = Some x"
    by simp_all
  then show "(\<exists>h \<in> set heroes. strict_equals (hero_id h) (Number q1))
           \<and> (\<exists>h \<in> set heroes. strict_equals (hero_id h) (Number q2))"
    unfolding find_Some_ex by (rule conjI)
next
  assume "(\<exists>h \<in> set heroes. strict_equals (hero_id h) (Number q1))
        \<and> (\<exists>h \<in> set heroes. strict_equals (hero_id h) (Number q2))"
  then obtain A B where "find (\<lambda>h. strict_equals (hero_id h) (Number q1)) heroes = Some A"
    and "find (\<lambda>h. strict_equals (hero_id h) (Number q2)) heroes = Some B"
    unfolding find_Some_ex [symmetric] by blast
  then show "status (fst (compare q1 q2 (Parsed heroes))) = 200"
    by (simp add: compare_found)
qed

lemma getEntity_status_iff:
  "status (fst (getEntity ident (Parsed heroes))) = 200 \<longleftrightarrow>
     (\<exists>h \<in> set heroes. String_of_id (hero_id h) = ident)"
  unfolding find_Some_ex [symmetric]
  by (auto simp: getEntity_def loadSuperheroes_def split: option.splits)

lemma getStatline_status_iff:
  "status (fst (getStatline ident (Parsed heroes))) = 200 \<longleftrightarrow>
     (\<exists>h \<in> set heroes. String_of_id (hero_id h) = ident)"
  unfolding find_Some_ex [symmetric]
  by (auto simp: getStatline_def loadSuperheroes_def split: option.splits)

subsection \<open>Two ways of resolving an identifier\<close>

text \<open>
  C10. The comparison finds a record when its \<^verbatim>\<open>id\<close> is strictly equal to the
  number the query text is coerced to; the single-record and statline routes
  find it when the decimal text of its \<^verbatim>\<open>id\<close> is the route parameter. The two
  relations differ: against a catalog with a record 10, the texts \<^verbatim>\<open>1e1\<close> and
  \<^verbatim>\<open> 10\<close> (with a leading blank) resolve in a comparison, while both other
  routes answer 404 for them.
\<close>

theorem resolution_relations_differ:
  "(status (fst (compare q1 q2 (Parsed heroes))) = 200 \<longleftrightarrow>
      (\<exists>h \<in> set heroes. strict_equals (hero_id h) (Number q1))
    \<and> (\<exists>h \<in> set heroes. strict_equals (hero_id h) (Number q2)))
   \<and> (status (fst (getEntity ident (Parsed heroes))) = 200 \<longleftrightarrow>
        (\<exists>h \<in> set heroes. String_of_id (hero_id h) = ident))
   \<and> (status (fst (getStatline ident (Parsed heroes))) = 200 \<longleftrightarrow>
        (\<exists>h \<in> set heroes. String_of_id (hero_id h) = ident))
   \<and> status (fst (compare (Some (QString ''1e1'')) (Some (QString '' 10''))
                     (Parsed sample_catalog))) = 200
   \<and> fst (getEntity ''1e1'' (Parsed sample_catalog))
       = \<lparr>status = 404, body = Text ''Superhero not found''\<rparr>
   \<and> fst (getStatline ''1e1'' (Parsed sample_catalog))
       = \<lparr>status = 404, body = Text ''Superhero not found''\<rparr>
   \<and> fst (getEntity '' 10'' (Parsed sample_catalog))
       = \<lparr>status = 404, body = Text ''Superhero not found''\<rparr>
   \<and> fst (getStatline '' 10'' (Parsed sample_catalog))
       = \<lparr>status = 404, body = Text ''Superhero not found''\<rparr>
   \<and> fst (getEntity ''10'' (Parsed sample_catalog))
       = \<lparr>status = 200, body = Json_hero hero_10\<rparr>"
proof (intro conjI)
  show "status (fst (compare q1 q2 (Parsed heroes))) = 200 \<longleftrightarrow>
          (\<exists>h \<in> set heroes. strict_equals (hero_id h) (Number q1))
        \<and> (\<exists>h \<in> set heroes. strict_equals (hero_id h) (Number q2))"
    by (rule compare_status_iff)
  show "status (fst (getEntity ident (Parsed heroes))) = 200 \<longleftrightarrow>
          (\<exists>h \<in> set heroes. String_of_id (hero_id h) = ident)"
    by (rule getEntity_status_iff)
  show "status (fst (getStatline ident (Parsed heroes))) = 200 \<longleftrightarrow>
          (\<exists>h \<in> set heroes. String_of_id (hero_id h) = ident)"
    by (rule getStatline_status_iff)
  show "status (fst (compare (Some (QString ''1e1'')) (Some (QString '' 10''))
                      (Parsed sample_catalog))) = 200"
    by code_simp
  show "fst (getEntity ''1e1'' (Parsed sample_catalog))
          = \<lparr>status = 404, body = Text ''Superhero not found''\<rparr>"
    by code_simp
  show "fst (getStatline ''1e1'' (Parsed sample_catalog))
          = \<lparr>status = 404, body = Text ''Superhero not found''\<rparr>"
    by code_simp
  show "fst (getEntity '' 10'' (Parsed sample_catalog))
          = \<lparr>status = 404, body = Text ''Superhero not found''\<rparr>"
    by code_simp
  show "fst (getStatline '' 10'' (Parsed sample_catalog))
          = \<lparr>status = 404, body = Text ''Superhero not found''\<rparr>"
    by code_simp
  show "fst (getEntity ''10'' (Parsed sample_catalog))
          = \<lparr>status = 200, body = Json_hero hero_10\<rparr>"
    by code_simp
qed

subsection \<open>Validation of the identifiers\<close>

text \<open>
  What the validation does catch: an identifier that is absent or whose text is
  not a numeric literal is coerced to \<open>NaN\<close>, and the answer is 400 before the
  data file is read.
\<close>

lemma compare_invalid:
  assumes "isNaN (Number q1) \<or> isNaN (Number q2)"
  shows "compare q1 q2 file
           = (\<lparr>status = 400,
               body = Json_error ''Both id1 and id2 query parameters must be valid numbers.''\<rparr>,
              [])"
  using assms by (simp add: compare_def Let_def)

lemma Number_undefined: "isNaN (Number None)"
  by (simp add: Number_def isNaN_def)

text \<open>
  C3. An empty identifier is not rejected, although the handler documents 400
  for identifiers that are missing or invalid: \<^verbatim>\<open>Number("")\<close> is 0, not
  \<open>NaN\<close>, so \<^verbatim>\<open>compare(1, "")\<close> passes the validation, reads the data file
  and looks for a record 0. With the sample catalog the answer is 404, with an
  unreadable file it is 500; a text of blanks behaves the same way.
\<close>

theorem compare_empty_identifier:
  "Number (Some (QString '''')) = Finite 0
   \<and> compare (Some (QString ''1'')) (Some (QString '''')) (Parsed sample_catalog)
       = (\<lparr>status = 404, body = Json_error ''Superhero not found''\<rparr>, [ReadFile])
   \<and> compare (Some (QString ''1'')) (Some (QString '''')) Unreadable
       = (\<lparr>status = 500, body = Text ''Internal Server Error''\<rparr>,
          [ReadFile, ConsoleError ''Error comparing superheroes:''])
   \<and> compare (Some (QString ''1'')) (Some (QString ''  '')) (Parsed sample_catalog)
       = (\<lparr>status = 404, body = Json_error ''Superhero not found''\<rparr>, [ReadFile])"
proof (intro conjI)
  show "Number (Some (QString '''')) = Finite 0"
    by code_simp
  show "compare (Some (QString ''1'')) (Some (QString '''')) (Parsed sample_catalog)
          = (\<lparr>status = 404, body = Json_error ''Superhero not found''\<rparr>, [ReadFile])"
    by code_simp
  show "compare (Some (QString ''1'')) (Some (QString '''')) Unreadable
          = (\<lparr>status = 500, body = Text ''Internal Server Error''\<rparr>,
             [ReadFile, ConsoleError ''Error comparing superheroes:''])"
    by code_simp
  show "compare (Some (QString ''1'')) (Some (QString ''  '')) (Parsed sample_catalog)
          = (\<lparr>status = 404, body = Json_error ''Superhero not found''\<rparr>, [ReadFile])"
    by code_simp
qed

section \<open>Worked examples\<close>

text \<open>
  Record 2 of the sample catalog beats record 10 in every category.
\<close>

lemma compare_2_10:
  "compare (Some (QString ''2'')) (Some (QString ''10'')) (Parsed sample_catalog)
     = (\<lparr>status = 200,
         body = Json_comparison
           \<lparr>id1 = Finite 2, id2 = Finite 10,
            categories =
              [\<lparr>cat_name = ''intelligence'', winner = Num 1,
                id1_value = Some 100, id2_value = Some 10\<rparr>,
               \<lparr>cat_name = ''strength'', winner = Num 1,
                id1_value = Some 18, id2_value = Some 8\<rparr>,
               \<lparr>cat_name = ''speed'', winner = Num 1,
                id1_value = Some 23, id2_value = Some 13\<rparr>,
               \<lparr>cat_name = ''durability'', winner = Num 1,
                id1_value = Some 28, id2_value = Some 5\<rparr>,
               \<lparr>cat_name = ''power'', winner = Num 1,
                id1_value = Some 32, id2_value = Some 5\<rparr>,
               \<lparr>cat_name = ''combat'', winner = Num 1,
                id1_value = Some 32, id2_value = Some 20\<rparr>],
            overall_winner = Num 1\<rparr>\<rparr>,
        [ReadFile])"
  by code_simp

text \<open>
  Rounding at work: a literal that is not a binary64 value is coerced to the
  nearest one, so the comparison resolves it to the record with that \<^verbatim>\<open>id\<close>.
\<close>

lemma Number_rounds:
  "Number (Some (QString ''10.0000000000000000001'')) = Finite 10
   \<and> Number (Some (QString ''9007199254740993'')) = Finite 9007199254740992"
  by code_simp

lemma compare_rounded_identifier:
  "status (fst (compare (Some (QString ''10.0000000000000000001'')) (Some (QString ''2''))
                 (Parsed sample_catalog))) = 200"
  by code_simp

end
